theory Spec2Isabelle
  imports Main "HOL-Library.List_Lexorder" "HOL-Library.Char_ord"
begin

section \<open>Data model\<close>

text \<open>
  Modelled from the spec: the enum \<^verbatim>\<open>Importance\<close>, declared in
  \<^verbatim>\<open>register_checks.py\<close>, which is not among the sources. The five levels are the ones
  the spec names; the code reads a member's \<^verbatim>\<open>.name\<close> and its numeric
  \<^verbatim>\<open>.value\<close>. The numeric values are nowhere given, so every function that reads
  \<^verbatim>\<open>.value\<close> takes the valuation as its first argument.
\<close>

datatype Importance =
  ERROR | PYNWB_VALIDATION | CRITICAL | BEST_PRACTICE_VIOLATION | BEST_PRACTICE_SUGGESTION

text \<open>
  Modelled from the spec: the enum \<^verbatim>\<open>Severity\<close> of the same missing file,
  \<^verbatim>\<open>LOW\<close> and \<^verbatim>\<open>HIGH\<close> and the value of a message no severity was assigned to.
\<close>

datatype Severity = HIGH | LOW | UNASSIGNED

text \<open>\<^verbatim>\<open>importance.name\<close>\<close>

fun Importance_name :: "Importance \<Rightarrow> string" where
  "Importance_name ERROR = ''ERROR''"
| "Importance_name PYNWB_VALIDATION = ''PYNWB_VALIDATION''"
| "Importance_name CRITICAL = ''CRITICAL''"
| "Importance_name BEST_PRACTICE_VIOLATION = ''BEST_PRACTICE_VIOLATION''"
| "Importance_name BEST_PRACTICE_SUGGESTION = ''BEST_PRACTICE_SUGGESTION''"

text \<open>\<^verbatim>\<open>Importance[importance_name]\<close>: the member of that name; \<open>None\<close> is the KeyError.\<close>

definition Importance_lookup :: "string \<Rightarrow> Importance option" where
  "Importance_lookup n =
     map_of [(''ERROR'', ERROR), (''PYNWB_VALIDATION'', PYNWB_VALIDATION),
             (''CRITICAL'', CRITICAL), (''BEST_PRACTICE_VIOLATION'', BEST_PRACTICE_VIOLATION),
             (''BEST_PRACTICE_SUGGESTION'', BEST_PRACTICE_SUGGESTION)] n"

text \<open>
  Modelled from the spec: valuations that agree with the order the spec gives
  (\<^verbatim>\<open>BEST_PRACTICE_SUGGESTION < BEST_PRACTICE_VIOLATION < CRITICAL\<close>, the two
  administrative levels above; \<^verbatim>\<open>LOW < HIGH\<close>, the unassigned severity below both);
  used only where a concrete run is evaluated.
\<close>

fun sample_severity :: "Severity \<Rightarrow> int" where
  "sample_severity HIGH = 2"
| "sample_severity LOW = 1"
| "sample_severity UNASSIGNED = 0"

fun sample_value :: "Importance \<Rightarrow> int" where
  "sample_value ERROR = 4"
| "sample_value PYNWB_VALIDATION = 3"
| "sample_value CRITICAL = 2"
| "sample_value BEST_PRACTICE_VIOLATION = 1"
| "sample_value BEST_PRACTICE_SUGGESTION = 0"

text \<open>
  A raised Python exception: whether it is an instance of \<^verbatim>\<open>Exception\<close> (what
  \<^verbatim>\<open>except Exception\<close> catches; \<^verbatim>\<open>KeyboardInterrupt\<close> or \<^verbatim>\<open>SystemExit\<close> are not),
  its \<^verbatim>\<open>str()\<close> and the text \<^verbatim>\<open>traceback.format_exc()\<close> gives for it.
\<close>

record exn =
  is_Exception :: bool
  exn_str :: string
  format_exc :: string

text \<open>
  The value kept in \<^verbatim>\<open>check_function_name\<close>: a name, or (line 277 of
  \<^verbatim>\<open>nwbinspector.py\<close>) the exception object itself.
\<close>

datatype name_field = Name string | ExceptionObject exn

text \<open>
  Modelled from the spec: the class \<^verbatim>\<open>InspectorMessage\<close> of the missing
  \<^verbatim>\<open>register_checks.py\<close>, its fields and their defaults (the optional ones default to
  \<^verbatim>\<open>None\<close>, the severity to the unassigned value); \<open>file_path\<close> is the field
  \<^verbatim>\<open>file\<close>.
\<close>

record InspectorMessage =
  message :: string
  importance :: Importance
  severity :: Severity
  check_function_name :: name_field
  object_type :: "string option"
  object_name :: "string option"
  location :: "string option"
  file_path :: "string option"

text \<open>
  \<^verbatim>\<open>InspectorMessage(message=m, importance=i, check_function_name=n, location=l)\<close>,
  the keyword arguments the calls in \<^verbatim>\<open>nwbinspector.py\<close> give.
\<close>

definition new_message ::
  "string \<Rightarrow> Importance \<Rightarrow> name_field \<Rightarrow> string option \<Rightarrow> InspectorMessage" where
  "new_message m i n l =
     \<lparr>message = m, importance = i, severity = UNASSIGNED, check_function_name = n,
      object_type = None, object_name = None, location = l, file_path = None\<rparr>"

text \<open>
  An object of the file: its name and the names of the classes of its type, the type
  itself first (\<^verbatim>\<open>type(o).__mro__\<close>), so that
  \<^verbatim>\<open>issubclass(type(o), T)\<close> is \<open>T \<in> set (mro o)\<close>.
\<close>

record obj =
  obj_name :: string
  mro :: "string list"

record NWBFile =
  objects :: "obj list"

text \<open>What a rule yields item by item: a message, or a string.\<close>

datatype item = IMsg InspectorMessage | IStr string

text \<open>
  What a call of a rule function returns: \<^verbatim>\<open>None\<close>, one message, a bare string, or a
  finite sequence of items.
\<close>

datatype rule_output = RNone | RMsg InspectorMessage | RStr string | RSeq "item list"

text \<open>
  What a call of a rule function does: it returns a finished value; or it raises; or (a
  rule written as a generator, or one that returns any other lazy iterable) it returns an
  iterable whose iteration gives some items and then raises.
\<close>

datatype outcome = Returns rule_output | Raises exn | ReturnsRaising "item list" exn

text \<open>
  A registered check function object: \<^verbatim>\<open>__name__\<close>, the attributes
  \<^verbatim>\<open>importance\<close> and \<^verbatim>\<open>neurodata_type\<close>, and what calling it on an object does.
\<close>

record check =
  func_name :: string
  func_importance :: Importance
  neurodata_type :: string
  call :: "obj \<Rightarrow> outcome"

text \<open>
  Check objects are shared and mutated in place, so a list of checks is a list of
  references into a store of check objects.
\<close>

type_synonym ref = nat
type_synonym store = "ref \<Rightarrow> check"

datatype error =
  ValueError string
| KeyError string
| UnboundLocalError string
| AttributeError string
| TypeError string
| Uncaught exn

section \<open>\<^verbatim>\<open>configure_checks\<close>\<close>

text \<open>
  The configuration is a dict from a key (an importance name or \<^verbatim>\<open>SKIP\<close>) to a list
  of function names: its items in insertion order.

  \<open>apply_config\<close> is the inner loop (lines 194 to 198) for one check \<open>c\<close>:
  \<^verbatim>\<open>continue\<close> goes on with the next item of the config, and
  \<^verbatim>\<open>Importance[importance_name]\<close> raises KeyError on an unknown name, leaving the
  assignments already made in place.
\<close>

type_synonym config = "(string \<times> string list) list"

fun apply_config :: "config \<Rightarrow> ref \<Rightarrow> store \<Rightarrow> store \<times> error option" where
  "apply_config [] c h = (h, None)"
| "apply_config ((importance_name, func_names) # rest) c h =
     (if func_name (h c) \<in> set func_names then
        (if importance_name = ''SKIP'' then apply_config rest c h
         else (case Importance_lookup importance_name of
                 None \<Rightarrow> (h, Some (KeyError importance_name))
               | Some i \<Rightarrow> apply_config rest c (h(c := (h c)\<lparr>func_importance := i\<rparr>))))
      else apply_config rest c h)"

text \<open>
  The outer loop (lines 193 to 199), with \<^verbatim>\<open>checks_out\<close> as accumulator:
  \<^verbatim>\<open>checks_out.append(check)\<close> follows the inner loop, whatever the inner loop did.
\<close>

fun configure_loop :: "config \<Rightarrow> ref list \<Rightarrow> ref list \<Rightarrow> store \<Rightarrow> store \<times> (error + ref list)" where
  "configure_loop cfg [] checks_out h = (h, Inr checks_out)"
| "configure_loop cfg (c # cs) checks_out h =
     (case apply_config cfg c h of
        (h', Some e) \<Rightarrow> (h', Inl e)
      | (h', None) \<Rightarrow> configure_loop cfg cs (checks_out @ [c]) h')"

definition configure_checks :: "config \<Rightarrow> ref list \<Rightarrow> store \<Rightarrow> store \<times> (error + ref list)" where
  "configure_checks cfg checks h = configure_loop cfg checks [] h"

text \<open>The keys the schema allows: an importance name or \<^verbatim>\<open>SKIP\<close>.\<close>

definition valid_keys :: "config \<Rightarrow> bool" where
  "valid_keys cfg = list_all (\<lambda>(k, ns). k = ''SKIP'' \<or> Importance_lookup k \<noteq> None) cfg"


section \<open>Generators\<close>

text \<open>
  \<^verbatim>\<open>run_checks\<close>, \<^verbatim>\<open>inspect_nwb\<close> and \<^verbatim>\<open>inspect_all\<close> are generators. A run of a
  generator to its end is the sequence of what it did, in order (a file opened, a rule
  function called on an object, an item yielded), and how it ended: exhausted, or with an
  exception leaving the generator.
\<close>

datatype event = Opened string | Called string string | Yielded item

datatype status = Exhausted | Raised error

type_synonym gen = "event list \<times> status"

text \<open>One generator after another: the second runs only if the first is exhausted.\<close>

fun seq_gen :: "gen \<Rightarrow> gen \<Rightarrow> gen" where
  "seq_gen (es, Exhausted) g = (es @ fst g, snd g)"
| "seq_gen (es, Raised e) g = (es, Raised e)"

text \<open>The items a run yields, in order.\<close>

fun yielded :: "event list \<Rightarrow> item list" where
  "yielded [] = []"
| "yielded (Yielded x # es) = x # yielded es"
| "yielded (Opened p # es) = yielded es"
| "yielded (Called c n # es) = yielded es"

section \<open>\<^verbatim>\<open>run_checks\<close>\<close>

text \<open>
  Lines 216 to 221: nothing for \<^verbatim>\<open>None\<close>; an instance of
  \<^verbatim>\<open>collections.Iterable\<close> is iterated, and a \<^verbatim>\<open>str\<close> is one (its items are its
  characters, each a string of length one); anything else (a message) is yielded as it is.
\<close>

fun emit :: "rule_output \<Rightarrow> item list" where
  "emit RNone = []"
| "emit (RStr s) = map (\<lambda>ch. IStr [ch]) s"
| "emit (RSeq xs) = xs"
| "emit (RMsg m) = [IMsg m]"

text \<open>
  Lines 207 to 215: the call of the rule function under \<^verbatim>\<open>try\<close>;
  \<^verbatim>\<open>except Exception\<close> replaces the output by an ERROR message, and an exception that is
  not an \<^verbatim>\<open>Exception\<close> is not caught. The result is the value of \<^verbatim>\<open>output\<close> after
  the statement, with the exception its iteration will end with, if any: the call of a
  generator function raises nothing, its body runs when the output is iterated.
\<close>

definition try_call :: "check \<Rightarrow> obj \<Rightarrow> exn + rule_output \<times> exn option" where
  "try_call check_function nwbfile_object =
     (case call check_function nwbfile_object of
        Returns out \<Rightarrow> Inr (out, None)
      | ReturnsRaising xs e \<Rightarrow> Inr (RSeq xs, Some e)
      | Raises e \<Rightarrow>
          if is_Exception e
          then Inr (RMsg (new_message (format_exc e) ERROR (Name (func_name check_function)) None),
                    None)
          else Inl e)"

text \<open>
  Lines 207 to 221 for one matching pair. The loop of lines 218 and 219 is outside the
  \<^verbatim>\<open>try\<close>: an exception raised while the output is iterated leaves \<^verbatim>\<open>run_checks\<close>,
  after the items that came before it.
\<close>

definition invoke :: "check \<Rightarrow> obj \<Rightarrow> gen" where
  "invoke check_function nwbfile_object =
     (case try_call check_function nwbfile_object of
        Inl e \<Rightarrow> ([Called (func_name check_function) (obj_name nwbfile_object)], Raised (Uncaught e))
      | Inr (out, raised) \<Rightarrow>
          (Called (func_name check_function) (obj_name nwbfile_object) # map Yielded (emit out),
           (case raised of None \<Rightarrow> Exhausted | Some e \<Rightarrow> Raised (Uncaught e))))"

text \<open>The inner loop (line 205) over the objects of the file, for one check.\<close>

fun run_objects :: "check \<Rightarrow> obj list \<Rightarrow> gen" where
  "run_objects check_function [] = ([], Exhausted)"
| "run_objects check_function (nwbfile_object # rest) =
     seq_gen
       (if neurodata_type check_function \<in> set (mro nwbfile_object)
        then invoke check_function nwbfile_object else ([], Exhausted))
       (run_objects check_function rest)"

fun run_checks :: "NWBFile \<Rightarrow> check list \<Rightarrow> gen" where
  "run_checks nwbfile [] = ([], Exhausted)"
| "run_checks nwbfile (check_function # rest) =
     seq_gen (run_objects check_function (objects nwbfile)) (run_checks nwbfile rest)"

section \<open>\<^verbatim>\<open>inspect_nwb\<close> and \<^verbatim>\<open>inspect_all\<close>\<close>

text \<open>
  What is at a path, as far as \<^verbatim>\<open>inspect_nwb\<close> sees it: whether
  \<^verbatim>\<open>pynwb.NWBHDF5IO\<close> raises on opening it, the errors \<^verbatim>\<open>pynwb.validate\<close> returns
  (each with \<^verbatim>\<open>reason\<close>, \<^verbatim>\<open>name\<close> and \<^verbatim>\<open>location\<close>), and what
  \<^verbatim>\<open>io.read()\<close> does.
\<close>

record validation_error =
  reason :: string
  name :: string
  error_location :: string

record nwb_source =
  path :: string
  opens :: "exn option"
  validation_errors :: "validation_error list"
  reads :: "exn + NWBFile"

text \<open>Lines 266 to 273.\<close>

definition validate :: "nwb_source \<Rightarrow> gen" where
  "validate src =
     (if validation_errors src \<noteq> []
      then (map (\<lambda>ve. Yielded (IMsg (new_message (reason ve) PYNWB_VALIDATION (Name (name ve))
                                        (Some (error_location ve)))))
              (validation_errors src), Exhausted)
      else ([], Exhausted))"

text \<open>
  Lines 274 to 277. The second component is the local variable \<^verbatim>\<open>nwbfile\<close> after the
  statement: \<open>None\<close> when the \<^verbatim>\<open>except\<close> branch ran and the variable was never bound.
\<close>

definition read_file :: "nwb_source \<Rightarrow> gen \<times> NWBFile option" where
  "read_file src =
     (case reads src of
        Inr nwbfile \<Rightarrow> (([], Exhausted), Some nwbfile)
      | Inl ex \<Rightarrow>
          if is_Exception ex
          then (([Yielded (IMsg (new_message (format_exc ex) ERROR (ExceptionObject ex) None))],
                 Exhausted), None)
          else (([], Raised (Uncaught ex)), None))"

text \<open>Truth value of an optional list of strings: \<^verbatim>\<open>None\<close> and \<^verbatim>\<open>[]\<close> are false.\<close>

fun truthy :: "string list option \<Rightarrow> bool" where
  "truthy None = False"
| "truthy (Some xs) = (xs \<noteq> [])"

text \<open>Lines 278 to 281.\<close>

definition select_checks :: "string list option \<Rightarrow> string list option \<Rightarrow> check list \<Rightarrow> check list" where
  "select_checks select ignore checks =
     (if truthy select then [x \<leftarrow> checks. func_name x \<in> set (the select)]
      else if truthy ignore then [x \<leftarrow> checks. func_name x \<notin> set (the ignore)]
      else checks)"

text \<open>
  Lines 284 to 286, consuming the run of \<^verbatim>\<open>run_checks\<close> item by item:
  \<^verbatim>\<open>inspector_message.file = nwbfile_path\<close> sets the field of a message and raises
  AttributeError on a \<^verbatim>\<open>str\<close>, which has no such attribute; nothing after that item runs.
\<close>

fun stamp :: "string \<Rightarrow> event list \<Rightarrow> status \<Rightarrow> gen" where
  "stamp nwbfile_path [] st = ([], st)"
| "stamp nwbfile_path (Yielded (IMsg m) # es) st =
     seq_gen ([Yielded (IMsg (m\<lparr>file_path := Some nwbfile_path\<rparr>))], Exhausted)
       (stamp nwbfile_path es st)"
| "stamp nwbfile_path (Yielded (IStr s) # es) st = ([], Raised (AttributeError ''file''))"
| "stamp nwbfile_path (Opened p # es) st =
     seq_gen ([Opened p], Exhausted) (stamp nwbfile_path es st)"
| "stamp nwbfile_path (Called c n # es) st =
     seq_gen ([Called c n], Exhausted) (stamp nwbfile_path es st)"

text \<open>
  The argument \<^verbatim>\<open>importance_threshold\<close>: a member of \<^verbatim>\<open>Importance\<close>, or some
  other value (such as a member of another enum), given by its \<^verbatim>\<open>str()\<close>.
\<close>

datatype threshold = Member Importance | NonMember string

text \<open>
  \<^verbatim>\<open>inspect_nwb\<close>, lines 257 to 286. A member of a plain \<^verbatim>\<open>Enum\<close> is true in
  line 282, so the checks are always filtered by the threshold. \<open>val\<close> is \<^verbatim>\<open>.value\<close>.
\<close>

definition inspect_nwb ::
  "(Importance \<Rightarrow> int) \<Rightarrow> nwb_source \<Rightarrow> check list \<Rightarrow> threshold \<Rightarrow>
   string list option \<Rightarrow> string list option \<Rightarrow> gen" where
  "inspect_nwb val src checks importance_threshold ignore select =
     (if ignore \<noteq> None \<and> select \<noteq> None
      then ([], Raised (ValueError ''Options 'ignore' and 'select' cannot both be used.''))
      else
        (case importance_threshold of
           NonMember s \<Rightarrow>
             ([], Raised (ValueError
                (''Indicated importance_threshold ('' @ s @
                 '') is not a valid importance level! Please choose from '' @
                 ''[CRITICAL_IMPORTANCE, BEST_PRACTICE_VIOLATION, BEST_PRACTICE_SUGGESTION].'')))
         | Member t \<Rightarrow>
            (case opens src of
               Some ex \<Rightarrow> ([], Raised (Uncaught ex))
             | None \<Rightarrow>
                 seq_gen ([Opened (path src)], Exhausted)
                   (seq_gen (validate src)
                     (seq_gen (fst (read_file src))
                       (let checks1 = select_checks select ignore checks;
                            checks2 = [x \<leftarrow> checks1. val (func_importance x) \<ge> val t]
                        in case snd (read_file src) of
                             None \<Rightarrow> ([], Raised (UnboundLocalError ''nwbfile''))
                           | Some nwbfile \<Rightarrow>
                               stamp (path src) (fst (run_checks nwbfile checks2))
                                 (snd (run_checks nwbfile checks2))))))))"

text \<open>
  \<^verbatim>\<open>inspect_all\<close>, lines 160 to 188, with no modules to import. The path is a
  directory (its \<^verbatim>\<open>*.nwb\<close> files, as \<^verbatim>\<open>natsorted\<close> orders them), a file, or neither.
  The checks are the objects the references name in the store, after
  \<^verbatim>\<open>configure_checks\<close> when there is a config.
\<close>

datatype fs_path = Directory "nwb_source list" | RegularFile nwb_source | Neither string

fun inspect_files ::
  "(Importance \<Rightarrow> int) \<Rightarrow> nwb_source list \<Rightarrow> check list \<Rightarrow> threshold \<Rightarrow>
   string list option \<Rightarrow> string list option \<Rightarrow> gen" where
  "inspect_files val [] checks importance_threshold ignore select = ([], Exhausted)"
| "inspect_files val (nwbfile_path # rest) checks importance_threshold ignore select =
     seq_gen (inspect_nwb val nwbfile_path checks importance_threshold ignore select)
       (inspect_files val rest checks importance_threshold ignore select)"

definition inspect_all ::
  "(Importance \<Rightarrow> int) \<Rightarrow> fs_path \<Rightarrow> string list option \<Rightarrow> string list option \<Rightarrow>
   config option \<Rightarrow> threshold \<Rightarrow> ref list \<Rightarrow> store \<Rightarrow> store \<times> gen" where
  "inspect_all val in_path ignore select cfg importance_threshold available_checks h =
     (case (case in_path of
              Directory fs \<Rightarrow> Inr fs
            | RegularFile f \<Rightarrow> Inr [f]
            | Neither p \<Rightarrow> Inl (ValueError (p @ '' should be a directory or an NWB file.''))) of
        Inl e \<Rightarrow> (h, ([], Raised e))
      | Inr nwbfiles \<Rightarrow>
          (case (case cfg of
                   Some c \<Rightarrow> configure_checks c available_checks h
                 | None \<Rightarrow> (h, Inr available_checks)) of
             (h', Inl e) \<Rightarrow> (h', ([], Raised e))
           | (h', Inr checks) \<Rightarrow>
               (h', inspect_files val nwbfiles (map h' checks) importance_threshold ignore select)))"

section \<open>\<^verbatim>\<open>organize_messages_by_file\<close> and \<^verbatim>\<open>format_organized_results_output\<close>\<close>

text \<open>
  The organized results are a dict from file to a dict from importance level to the list of
  messages of that level; both as their items in order. The annotation of the formatter says
  the keys are strings, \<^verbatim>\<open>organize_messages_by_file\<close> makes the inner keys members of
  \<^verbatim>\<open>Importance\<close> (\<^verbatim>\<open>message.importance\<close>): a key is one or the other, and a member of
  the enum is never equal to a string. The outer keys are the values of \<^verbatim>\<open>message.file\<close>.
\<close>

datatype dict_key = EnumKey Importance | StrKey string

type_synonym organized_results =
  "(string option \<times> (dict_key \<times> InspectorMessage list) list) list"

text \<open>
  Line 39, \<^verbatim>\<open>sorted(set(...))\<close> of the files of the messages. File names are compared as
  strings (for the paths of the files of one directory this is the order of the paths);
  comparing \<^verbatim>\<open>None\<close> with a name raises TypeError, which happens as soon as the set has
  \<^verbatim>\<open>None\<close> and another element.
\<close>

definition sorted_files :: "string option list \<Rightarrow> error + string option list" where
  "sorted_files fs =
     (let files = remdups fs
      in if None \<in> set files
         then (if length files \<ge> 2 then Inl (TypeError ''<'') else Inr files)
         else Inr (map Some (sort (map the files))))"

text \<open>
  \<^verbatim>\<open>organize_messages_by_file\<close>, lines 38 to 49. \<open>val\<close> and \<open>sval\<close> are
  \<^verbatim>\<open>.value\<close> of an importance and of a severity; \<^verbatim>\<open>sorted\<close> is stable, and the order
  of the importance levels of a file does not depend on the order of iteration of the set
  when different levels have different values.
\<close>

definition organize_messages_by_file ::
  "(Importance \<Rightarrow> int) \<Rightarrow> (Severity \<Rightarrow> int) \<Rightarrow> InspectorMessage list \<Rightarrow>
   error + organized_results" where
  "organize_messages_by_file val sval messages =
     (case sorted_files (map file_path messages) of
        Inl e \<Rightarrow> Inl e
      | Inr files \<Rightarrow>
          Inr (map (\<lambda>file.
                 (file,
                  let file_messages = filter (\<lambda>x. file_path x = file) messages
                  in map (\<lambda>level.
                            (EnumKey level,
                             sort_key (\<lambda>x. - sval (severity x))
                               (filter (\<lambda>x. importance x = level) file_messages)))
                       (sort_key (\<lambda>x. - val x) (remdups (map importance file_messages)))))
               files))"

text \<open>\<^verbatim>\<open>str\<close> of a natural number, of an optional string and of the name field.\<close>

fun str_nat :: "nat \<Rightarrow> string" where
  "str_nat n =
     (if n < 10 then [''0123456789'' ! n]
      else str_nat (n div 10) @ [''0123456789'' ! (n mod 10)])"

declare str_nat.simps [simp del]

fun str_opt :: "string option \<Rightarrow> string" where
  "str_opt None = ''None''"
| "str_opt (Some s) = s"

fun str_name :: "name_field \<Rightarrow> string" where
  "str_name (Name s) = s"
| "str_name (ExceptionObject e) = exn_str e"

definition newline :: char where
  "newline = CHR 0x0A"

definition quote :: char where
  "quote = CHR 0x27"

text \<open>\<^verbatim>\<open>enumerate(xs, start=1)\<close>\<close>

definition enumerate1 :: "'a list \<Rightarrow> (nat \<times> 'a) list" where
  "enumerate1 xs = zip [1 ..< Suc (length xs)] xs"

text \<open>The f-string of lines 51 and 52.\<close>

definition admin_entry :: "nat \<Rightarrow> nat \<Rightarrow> nat \<Rightarrow> InspectorMessage \<Rightarrow> string" where
  "admin_entry nwbfile_index importance_index check_index check_result =
     str_nat nwbfile_index @ ''.'' @ str_nat importance_index @ ''.'' @ str_nat check_index @
     ''   '' @ str_opt (object_type check_result) @ '' '' @
     [quote] @ str_opt (location check_result) @ [quote] @ '': '' @
     str_name (check_function_name check_result) @ '': '' @ message check_result @ [newline]"

text \<open>The f-string of lines 57 to 59.\<close>

definition normal_entry :: "nat \<Rightarrow> nat \<Rightarrow> nat \<Rightarrow> InspectorMessage \<Rightarrow> string" where
  "normal_entry nwbfile_index importance_index check_index check_result =
     str_nat nwbfile_index @ ''.'' @ str_nat importance_index @ ''.'' @ str_nat check_index @
     ''   '' @ str_opt (object_type check_result) @ '' '' @
     [quote] @ str_opt (object_name check_result) @ [quote] @ '' located in '' @
     [quote] @ str_opt (location check_result) @ [quote] @ [newline] @
     ''        '' @ str_name (check_function_name check_result) @ '': '' @
     message check_result @ [newline]"

text \<open>
  The loop of line 43 over the importance levels of one file, from index
  \<open>importance_index\<close> on. \<^verbatim>\<open>importance_level.name\<close> raises AttributeError on a string
  key; the test of line 48 compares the key with two strings.
\<close>

fun format_levels ::
  "nat \<Rightarrow> nat \<Rightarrow> (dict_key \<times> InspectorMessage list) list \<Rightarrow> error + string list" where
  "format_levels nwbfile_index importance_index [] = Inr []"
| "format_levels nwbfile_index importance_index ((importance_level, check_results) # rest) =
     (case importance_level of
        StrKey s \<Rightarrow> Inl (AttributeError ''name'')
      | EnumKey i \<Rightarrow>
          (let importance_string =
                 map (\<lambda>ch. if ch = CHR ''_'' then CHR '' '' else ch) (Importance_name i);
               entries =
                 (if importance_level \<in> set [StrKey ''ERROR'', StrKey ''PYNWB_VALIDATION'']
                  then map (\<lambda>(check_index, check_result).
                              admin_entry nwbfile_index importance_index check_index check_result)
                         (enumerate1 check_results)
                  else map (\<lambda>(check_index, check_result).
                              normal_entry nwbfile_index importance_index check_index check_result)
                         (enumerate1 check_results))
           in case format_levels nwbfile_index (Suc importance_index) rest of
                Inl e \<Rightarrow> Inl e
              | Inr out \<Rightarrow>
                  Inr ([[newline] @ importance_string @ [newline],
                        replicate (length importance_string) (CHR ''-'') @ [newline]]
                       @ entries @ out)))"

text \<open>The loop of line 38 over the files, from index \<open>nwbfile_index\<close> on.\<close>

fun format_files :: "nat \<Rightarrow> nat \<Rightarrow> organized_results \<Rightarrow> error + string list" where
  "format_files num_nwbfiles nwbfile_index [] = Inr []"
| "format_files num_nwbfiles nwbfile_index ((nwbfile_name, organized_check_results) # rest) =
     (let nwbfile_name_string = ''NWBFile: '' @ str_opt nwbfile_name
      in case format_levels nwbfile_index 1 organized_check_results of
           Inl e \<Rightarrow> Inl e
         | Inr body \<Rightarrow>
             (case format_files num_nwbfiles (Suc nwbfile_index) rest of
                Inl e \<Rightarrow> Inl e
              | Inr out \<Rightarrow>
                  Inr ([nwbfile_name_string @ [newline],
                        replicate (length nwbfile_name_string) (CHR ''='') @ [newline]]
                       @ body
                       @ (if nwbfile_index \<noteq> num_nwbfiles then [[newline, newline, newline]] else [])
                       @ out)))"

definition format_organized_results_output :: "organized_results \<Rightarrow> error + string list" where
  "format_organized_results_output organized_results =
     format_files (length organized_results) 1 organized_results"

text \<open>
  Lines 144 to 146 of \<^verbatim>\<open>inspect_all_cli\<close>: the report of a non-empty list of messages.
\<close>

definition formatted_results ::
  "(Importance \<Rightarrow> int) \<Rightarrow> (Severity \<Rightarrow> int) \<Rightarrow> InspectorMessage list \<Rightarrow>
   error + string list" where
  "formatted_results val sval messages =
     (case organize_messages_by_file val sval messages of
        Inl e \<Rightarrow> Inl e
      | Inr organized_results \<Rightarrow> format_organized_results_output organized_results)"

section \<open>Example inputs\<close>

text \<open>
  A file with one \<^verbatim>\<open>TimeSeries\<close> object, a file whose \<^verbatim>\<open>io.read()\<close> raises, a file
  with one validation error; rule functions that return one message, a sequence of two, a
  bare string, one that raises an \<^verbatim>\<open>Exception\<close>, one that raises
  \<^verbatim>\<open>KeyboardInterrupt\<close> (which is not an \<^verbatim>\<open>Exception\<close>), and a generator that
  yields one message and then raises; a registry of two check objects.
\<close>

definition time_series :: obj where
  "time_series = \<lparr>obj_name = ''ts'', mro = [''TimeSeries'', ''NWBDataInterface'', ''object'']\<rparr>"

definition boom :: exn where
  "boom = \<lparr>is_Exception = True, exn_str = ''boom'', format_exc = ''Traceback: boom''\<rparr>"

definition finding :: InspectorMessage where
  "finding = new_message ''Missing text for attribute unit.'' BEST_PRACTICE_VIOLATION
               (Name ''check_missing_unit'') (Some ''/'')"

definition second_finding :: InspectorMessage where
  "second_finding = new_message ''Timestamps are not ascending.'' BEST_PRACTICE_VIOLATION
               (Name ''check_pair'') (Some ''/'')"

definition check_missing_unit :: check where
  "check_missing_unit =
     \<lparr>func_name = ''check_missing_unit'', func_importance = BEST_PRACTICE_VIOLATION,
      neurodata_type = ''TimeSeries'', call = (\<lambda>_. Returns (RMsg finding))\<rparr>"

definition check_pair :: check where
  "check_pair =
     \<lparr>func_name = ''check_pair'', func_importance = BEST_PRACTICE_VIOLATION,
      neurodata_type = ''TimeSeries'',
      call = (\<lambda>_. Returns (RSeq [IMsg finding, IMsg second_finding]))\<rparr>"

definition check_crash :: check where
  "check_crash =
     \<lparr>func_name = ''check_crash'', func_importance = BEST_PRACTICE_SUGGESTION,
      neurodata_type = ''TimeSeries'', call = (\<lambda>_. Raises boom)\<rparr>"

definition interrupt :: exn where
  "interrupt = \<lparr>is_Exception = False, exn_str = [],
                 format_exc = ''Traceback: KeyboardInterrupt''\<rparr>"

definition check_interrupt :: check where
  "check_interrupt =
     \<lparr>func_name = ''check_interrupt'', func_importance = CRITICAL,
      neurodata_type = ''TimeSeries'', call = (\<lambda>_. Raises interrupt)\<rparr>"

definition check_generator :: check where
  "check_generator =
     \<lparr>func_name = ''check_generator'', func_importance = CRITICAL,
      neurodata_type = ''TimeSeries'', call = (\<lambda>_. ReturnsRaising [IMsg finding] boom)\<rparr>"

definition check_text :: check where
  "check_text =
     \<lparr>func_name = ''check_text'', func_importance = CRITICAL,
      neurodata_type = ''TimeSeries'', call = (\<lambda>_. Returns (RStr ''ab''))\<rparr>"

definition readable :: nwb_source where
  "readable = \<lparr>path = ''good.nwb'', opens = None, validation_errors = [],
               reads = Inr \<lparr>objects = [time_series]\<rparr>\<rparr>"

definition unreadable :: nwb_source where
  "unreadable = \<lparr>path = ''bad.nwb'', opens = None, validation_errors = [], reads = Inl boom\<rparr>"

definition invalid :: nwb_source where
  "invalid = \<lparr>path = ''invalid.nwb'', opens = None,
              validation_errors = [\<lparr>reason = ''missing attribute'', name = ''MissingDataType'',
                                    error_location = ''/acquisition''\<rparr>],
              reads = Inr \<lparr>objects = []\<rparr>\<rparr>"

definition registry :: store where
  "registry r = (if r = 0 then check_missing_unit else check_crash)"

lemmas examples = time_series_def boom_def finding_def second_finding_def check_missing_unit_def
  check_pair_def check_crash_def check_text_def readable_def unreadable_def invalid_def
  registry_def interrupt_def check_interrupt_def check_generator_def

section \<open>Properties of \<^verbatim>\<open>configure_checks\<close>\<close>

lemma apply_config_other: "r \<noteq> c \<Longrightarrow> fst (apply_config cfg c h) r = h r"
  by (induction cfg arbitrary: h) (auto split: option.splits)

lemma apply_config_name: "func_name (fst (apply_config cfg c h) r) = func_name (h r)"
  by (induction cfg arbitrary: h) (auto split: option.splits)

lemma apply_config_inert:
  "\<forall>(k, ns) \<in> set cfg. func_name (h c) \<in> set ns \<longrightarrow> k = ''SKIP'' \<Longrightarrow>
   apply_config cfg c h = (h, None)"
  by (induction cfg arbitrary: h) (auto split: option.splits)

lemma apply_config_valid: "valid_keys cfg \<Longrightarrow> snd (apply_config cfg c h) = None"
  by (induction cfg arbitrary: h) (auto simp: valid_keys_def split: option.splits)

lemma apply_config_append:
  "apply_config (pre @ post) c h =
     (case apply_config pre c h of
        (h', Some e) \<Rightarrow> (h', Some e)
      | (h', None) \<Rightarrow> apply_config post c h')"
  by (induction pre arbitrary: h) (auto split: option.splits)

text \<open>The last key that lists the name of a check decides its importance.\<close>

lemma apply_config_last:
  assumes "valid_keys pre" "Importance_lookup k = Some i" "func_name (h c) \<in> set names"
    and "\<forall>(k', ns) \<in> set post. func_name (h c) \<in> set ns \<longrightarrow> k' = ''SKIP''"
  shows "func_importance (fst (apply_config (pre @ (k, names) # post) c h) c) = i"
proof -
  obtain h1 where h1: "apply_config pre c h = (h1, None)"
    using apply_config_valid [OF assms(1), of c h] by (cases "apply_config pre c h") auto
  have n1: "func_name (h1 c) = func_name (h c)"
    using apply_config_name [of pre c h c] h1 by simp
  have k: "k \<noteq> ''SKIP''" using assms(2) by (auto simp: Importance_lookup_def)
  let ?h2 = "h1(c := (h1 c)\<lparr>func_importance := i\<rparr>)"
  have "apply_config post c ?h2 = (?h2, None)"
    by (rule apply_config_inert) (use assms(4) n1 in auto)
  then have "apply_config (pre @ (k, names) # post) c h = (?h2, None)"
    using h1 n1 k assms(2,3) by (simp add: apply_config_append)
  then show ?thesis by simp
qed

lemma configure_loop_result:
  "valid_keys cfg \<Longrightarrow> snd (configure_loop cfg cs out h) = Inr (out @ cs)"
proof (induction cs arbitrary: out h)
  case Nil
  then show ?case by simp
next
  case (Cons c cs)
  obtain h1 where "apply_config cfg c h = (h1, None)"
    using apply_config_valid [OF Cons.prems, of c h] by (cases "apply_config cfg c h") auto
  then show ?case using Cons.IH [OF Cons.prems, of "out @ [c]" h1] by simp
qed

lemma configure_loop_name:
  "func_name (fst (configure_loop cfg cs out h) r) = func_name (h r)"
proof (induction cs arbitrary: out h)
  case Nil
  then show ?case by simp
next
  case (Cons c cs)
  obtain h1 e where a: "apply_config cfg c h = (h1, e)" by (cases "apply_config cfg c h")
  then have "func_name (h1 r) = func_name (h r)"
    using apply_config_name [of cfg c h r] by simp
  then show ?case using a Cons.IH [of "out @ [c]" h1] by (cases e) simp_all
qed

text \<open>A config that lists the name of a check under no importance key leaves the check as it is.\<close>

lemma configure_loop_inert:
  "\<forall>(k, ns) \<in> set cfg. func_name (h r) \<in> set ns \<longrightarrow> k = ''SKIP'' \<Longrightarrow>
   fst (configure_loop cfg cs out h) r = h r"
proof (induction cs arbitrary: out h)
  case Nil
  then show ?case by simp
next
  case (Cons c cs)
  obtain h1 e where a: "apply_config cfg c h = (h1, e)" by (cases "apply_config cfg c h")
  have h1r: "h1 r = h r"
  proof (cases "r = c")
    case True
    then show ?thesis using apply_config_inert [of cfg h c] Cons.prems a by simp
  next
    case False
    then show ?thesis using apply_config_other [of r c cfg h] a by simp
  qed
  show ?case
  proof (cases e)
    case None
    have "fst (configure_loop cfg cs (out @ [c]) h1) r = h1 r"
      by (rule Cons.IH) (use Cons.prems h1r in simp)
    then show ?thesis using a None h1r by simp
  next
    case (Some x)
    then show ?thesis using a h1r by simp
  qed
qed

lemma configure_loop_importance:
  assumes "valid_keys (pre @ (k, names) # post)" "Importance_lookup k = Some i"
    and "\<forall>(k', ns) \<in> set post. nm \<in> set ns \<longrightarrow> k' = ''SKIP''" "nm \<in> set names"
  shows "func_name (h r) = nm \<Longrightarrow> r \<in> set cs \<or> func_importance (h r) = i \<Longrightarrow>
         func_importance (fst (configure_loop (pre @ (k, names) # post) cs out h) r) = i"
proof (induction cs arbitrary: out h)
  case Nil
  then show ?case by simp
next
  case (Cons c cs)
  let ?cfg = "pre @ (k, names) # post"
  have vp: "valid_keys pre" using assms(1) by (simp add: valid_keys_def)
  obtain h1 where a: "apply_config ?cfg c h = (h1, None)"
    using apply_config_valid [OF assms(1), of c h] by (cases "apply_config ?cfg c h") auto
  have n1: "func_name (h1 r) = nm"
    using apply_config_name [of ?cfg c h r] a Cons.prems(1) by simp
  have "r \<in> set cs \<or> func_importance (h1 r) = i"
  proof (cases "r = c")
    case True
    have "func_importance (fst (apply_config ?cfg c h) c) = i"
      by (rule apply_config_last [OF vp assms(2)]) (use Cons.prems(1) True assms(3,4) in auto)
    then show ?thesis using a True by simp
  next
    case False
    then show ?thesis using apply_config_other [of r c ?cfg h] a Cons.prems(2) by auto
  qed
  then have "func_importance (fst (configure_loop ?cfg cs (out @ [c]) h1) r) = i"
    using Cons.IH [of h1 "out @ [c]"] n1 by simp
  then show ?case using a by simp
qed

text \<open>
  Claim C1: a check whose function name is listed under the key \<^verbatim>\<open>SKIP\<close> is not in the
  list \<^verbatim>\<open>configure_checks\<close> returns. The code does not do this: the \<^verbatim>\<open>continue\<close> of
  line 197 belongs to the inner loop over the items of the config, so line 199 appends the
  check all the same. With the config \<^verbatim>\<open>{"SKIP": ["check_missing_unit"]}\<close> the check
  \<^verbatim>\<open>check_missing_unit\<close> (reference 0) is still in the returned list.
\<close>

theorem configure_checks_keeps_skipped_check:
  "func_name (registry 0) = ''check_missing_unit'' \<and>
   configure_checks [(''SKIP'', [''check_missing_unit''])] [0, 1] registry =
     (registry, Inr [0, 1])"
  by (simp add: configure_checks_def examples)

text \<open>
  Claim C9: \<^verbatim>\<open>configure_checks\<close> assigns the importance to the shared check object in
  place. For a config with keys the schema allows, and a check \<open>r\<close> of the input list whose
  name is listed under the importance key \<open>k\<close> (and under no later importance key, which
  would be assigned after it): the call returns the input list itself, the object \<open>r\<close> has
  the importance of \<open>k\<close> in the store after the call, and after a second call on the same
  store, with a config that does not list the name under any importance key, the object
  still has the importance the first call gave it.
\<close>

theorem configure_checks_mutates_shared_check:
  assumes "valid_keys (pre @ (k, names) # post)"
    and "Importance_lookup k = Some i"
    and "func_name (h r) \<in> set names"
    and "\<forall>(k', ns) \<in> set post. func_name (h r) \<in> set ns \<longrightarrow> k' = ''SKIP''"
    and "r \<in> set checks"
    and "\<forall>(k', ns) \<in> set cfg2. func_name (h r) \<in> set ns \<longrightarrow> k' = ''SKIP''"
  shows "snd (configure_checks (pre @ (k, names) # post) checks h) = Inr checks \<and>
         func_importance (fst (configure_checks (pre @ (k, names) # post) checks h) r) = i \<and>
         func_importance
           (fst (configure_checks cfg2 checks
                  (fst (configure_checks (pre @ (k, names) # post) checks h))) r) = i"
proof -
  let ?cfg = "pre @ (k, names) # post"
  let ?h' = "fst (configure_checks ?cfg checks h)"
  have 1: "snd (configure_checks ?cfg checks h) = Inr checks"
    using configure_loop_result [OF assms(1), of checks "[]" h] by (simp add: configure_checks_def)
  have 2: "func_importance (?h' r) = i"
    unfolding configure_checks_def
    by (rule configure_loop_importance [OF assms(1,2) assms(4,3)]) (use assms(5) in simp_all)
  have "func_name (?h' r) = func_name (h r)"
    by (simp add: configure_checks_def configure_loop_name)
  then have 3: "func_importance (fst (configure_checks cfg2 checks ?h') r) = i"
    using configure_loop_inert [of cfg2 ?h' r checks "[]"] assms(6) 2
    by (simp add: configure_checks_def)
  show ?thesis using 1 2 3 by simp
qed

theorem configure_checks_mutates_shared_check_witness:
  "func_importance (registry 0) = BEST_PRACTICE_VIOLATION \<and>
   snd (configure_checks [(''SKIP'', [''check_crash'']), (''CRITICAL'', [''check_missing_unit''])]
          [0, 1] registry) = Inr [0, 1] \<and>
   func_importance
     (fst (configure_checks [(''SKIP'', [''check_crash'']), (''CRITICAL'', [''check_missing_unit''])]
            [0, 1] registry) 0) = CRITICAL \<and>
   func_importance
     (fst (configure_checks [(''BEST_PRACTICE_SUGGESTION'', [''check_crash''])] [0, 1]
       (fst (configure_checks
               [(''SKIP'', [''check_crash'']), (''CRITICAL'', [''check_missing_unit''])]
               [0, 1] registry))) 0) = CRITICAL"
  using configure_checks_mutates_shared_check
    [where pre = "[(''SKIP'', [''check_crash''])]" and k = "''CRITICAL''"
       and names = "[''check_missing_unit'']" and post = "[]" and i = CRITICAL
       and h = registry and r = 0 and checks = "[0, 1]"
       and ?cfg2.0 = "[(''BEST_PRACTICE_SUGGESTION'', [''check_crash''])]"]
  by (simp add: valid_keys_def Importance_lookup_def examples)

section \<open>Properties of \<^verbatim>\<open>run_checks\<close>\<close>

lemma seq_gen_empty [simp]: "seq_gen ([], Exhausted) g = g"
  by (cases g) simp

lemma seq_gen_assoc: "seq_gen (seq_gen a b) c = seq_gen a (seq_gen b c)"
proof (cases a)
  case (Pair es st)
  show ?thesis
  proof (cases st)
    case Exhausted
    obtain es' st' where b: "b = (es', st')" by (cases b)
    show ?thesis using Pair Exhausted b by (cases st') simp_all
  next
    case (Raised e)
    then show ?thesis using Pair by simp
  qed
qed

lemma snd_seq_gen:
  "snd (seq_gen a b) = (case snd a of Exhausted \<Rightarrow> snd b | Raised e \<Rightarrow> Raised e)"
  by (cases a; cases "snd a") auto

lemma run_objects_append:
  "run_objects c (os1 @ os2) = seq_gen (run_objects c os1) (run_objects c os2)"
  by (induction os1) (simp_all add: seq_gen_assoc)

lemma run_checks_append:
  "run_checks nwbfile (cs1 @ cs2) = seq_gen (run_checks nwbfile cs1) (run_checks nwbfile cs2)"
  by (induction cs1) (simp_all add: seq_gen_assoc)

text \<open>
  The run of \<^verbatim>\<open>run_checks\<close> around one matching pair of a check \<open>c\<close> and an object
  \<open>obj\<close>: the pairs before it, the call of \<open>c\<close> on \<open>obj\<close>, then the objects after
  \<open>obj\<close> for \<open>c\<close> and the checks after \<open>c\<close>.
\<close>

lemma run_checks_split:
  assumes "objects nwbfile = os1 @ obj # os2" "neurodata_type c \<in> set (mro obj)"
  shows "run_checks nwbfile (cs1 @ c # cs2) =
           seq_gen (seq_gen (run_checks nwbfile cs1) (run_objects c os1))
             (seq_gen (invoke c obj) (seq_gen (run_objects c os2) (run_checks nwbfile cs2)))"
  using assms by (simp add: run_checks_append run_objects_append seq_gen_assoc)

text \<open>
  Claim C3, as the code has it: for a matching pair that the run reaches, \<^verbatim>\<open>None\<close> yields
  nothing, a single message yields one item, a sequence yields its items in order, and a
  bare string is iterated like any other iterable: it yields its characters one by one. The
  run then goes on with the pairs that follow.
\<close>

theorem run_checks_normalizes_output:
  assumes "call c obj = Returns out"
    and "neurodata_type c \<in> set (mro obj)"
    and "objects nwbfile = os1 @ obj # os2"
    and "seq_gen (run_checks nwbfile cs1) (run_objects c os1) = (es, Exhausted)"
  shows "run_checks nwbfile (cs1 @ c # cs2) =
           (es @ Called (func_name c) (obj_name obj) #
              map Yielded
                (case out of
                   RNone \<Rightarrow> []
                 | RMsg m \<Rightarrow> [IMsg m]
                 | RSeq xs \<Rightarrow> xs
                 | RStr s \<Rightarrow> map (\<lambda>ch. IStr [ch]) s)
               @ fst (seq_gen (run_objects c os2) (run_checks nwbfile cs2)),
            snd (seq_gen (run_objects c os2) (run_checks nwbfile cs2)))"
proof -
  have "emit out = (case out of RNone \<Rightarrow> [] | RMsg m \<Rightarrow> [IMsg m] | RSeq xs \<Rightarrow> xs
                    | RStr s \<Rightarrow> map (\<lambda>ch. IStr [ch]) s)"
    by (cases out) simp_all
  then have "invoke c obj =
          (Called (func_name c) (obj_name obj) #
             map Yielded (case out of RNone \<Rightarrow> [] | RMsg m \<Rightarrow> [IMsg m] | RSeq xs \<Rightarrow> xs
                    | RStr s \<Rightarrow> map (\<lambda>ch. IStr [ch]) s), Exhausted)"
    using assms(1) by (simp add: invoke_def try_call_def)
  then show ?thesis
    using run_checks_split [OF assms(3,2), of cs1 cs2] assms(4) by simp
qed

theorem run_checks_normalizes_output_witness:
  "run_checks \<lparr>objects = [time_series]\<rparr> [check_missing_unit, check_pair, check_missing_unit] =
     ([Called ''check_missing_unit'' ''ts'', Yielded (IMsg finding),
       Called ''check_pair'' ''ts'', Yielded (IMsg finding), Yielded (IMsg second_finding),
       Called ''check_missing_unit'' ''ts'', Yielded (IMsg finding)],
      Exhausted)"
  using run_checks_normalizes_output
    [where c = check_pair and obj = time_series
       and out = "RSeq [IMsg finding, IMsg second_finding]"
       and nwbfile = "\<lparr>objects = [time_series]\<rparr>" and ?os1.0 = "[]" and ?os2.0 = "[]"
       and ?cs1.0 = "[check_missing_unit]" and ?cs2.0 = "[check_missing_unit]"
       and es = "[Called ''check_missing_unit'' ''ts'', Yielded (IMsg finding)]"]
  by (simp add: time_series_def check_pair_def check_missing_unit_def invoke_def try_call_def)

text \<open>
  The claim as stated fails: a rule function that returns the bare string \<^verbatim>\<open>"ab"\<close>
  makes \<^verbatim>\<open>run_checks\<close> yield the two items \<^verbatim>\<open>"a"\<close> and \<^verbatim>\<open>"b"\<close>, not the one item
  \<^verbatim>\<open>"ab"\<close>.
\<close>

theorem run_checks_iterates_string:
  "call check_text time_series = Returns (RStr ''ab'') \<and>
   yielded (fst (run_checks \<lparr>objects = [time_series]\<rparr> [check_text])) =
     [IStr ''a'', IStr ''b''] \<and>
   yielded (fst (run_checks \<lparr>objects = [time_series]\<rparr> [check_text])) \<noteq> [IStr ''ab'']"
  by (simp add: time_series_def check_text_def invoke_def try_call_def)

text \<open>
  Claim C4, as the code has it: when the call of the rule function raises an instance of
  \<^verbatim>\<open>Exception\<close>, the class the \<^verbatim>\<open>except\<close> of line 210 names, on a matching pair that
  the run reaches, \<^verbatim>\<open>run_checks\<close> yields for this pair exactly one message, with
  importance ERROR, the name of the rule as \<^verbatim>\<open>check_function_name\<close> and the text of the
  stack trace as message; the exception does not leave the generator, and the run goes on
  with every pair that follows: the objects after this one for the same check, then the
  remaining checks.
\<close>

theorem run_checks_isolates_rule_exception:
  assumes "call c obj = Raises e" and "is_Exception e"
    and "neurodata_type c \<in> set (mro obj)"
    and "objects nwbfile = os1 @ obj # os2"
    and "seq_gen (run_checks nwbfile cs1) (run_objects c os1) = (es, Exhausted)"
  shows "run_checks nwbfile (cs1 @ c # cs2) =
           (es @ [Called (func_name c) (obj_name obj),
                  Yielded (IMsg \<lparr>message = format_exc e, importance = ERROR, severity = UNASSIGNED,
                                  check_function_name = Name (func_name c), object_type = None,
                                  object_name = None, location = None, file_path = None\<rparr>)]
               @ fst (seq_gen (run_objects c os2) (run_checks nwbfile cs2)),
            snd (seq_gen (run_objects c os2) (run_checks nwbfile cs2)))"
proof -
  have "invoke c obj =
          ([Called (func_name c) (obj_name obj),
            Yielded (IMsg (new_message (format_exc e) ERROR (Name (func_name c)) None))], Exhausted)"
    using assms(1,2) by (simp add: invoke_def try_call_def)
  then show ?thesis
    using run_checks_split [OF assms(4,3), of cs1 cs2] assms(5) by (simp add: new_message_def)
qed

theorem run_checks_isolates_rule_exception_witness:
  "run_checks \<lparr>objects = [time_series, time_series]\<rparr> [check_crash, check_missing_unit] =
     ([Called ''check_crash'' ''ts'',
       Yielded (IMsg (new_message ''Traceback: boom'' ERROR (Name ''check_crash'') None)),
       Called ''check_crash'' ''ts'',
       Yielded (IMsg (new_message ''Traceback: boom'' ERROR (Name ''check_crash'') None)),
       Called ''check_missing_unit'' ''ts'', Yielded (IMsg finding),
       Called ''check_missing_unit'' ''ts'', Yielded (IMsg finding)],
      Exhausted)"
  using run_checks_isolates_rule_exception
    [where c = check_crash and obj = time_series and e = boom
       and nwbfile = "\<lparr>objects = [time_series, time_series]\<rparr>"
       and ?os1.0 = "[]" and ?os2.0 = "[time_series]"
       and ?cs1.0 = "[]" and ?cs2.0 = "[check_missing_unit]" and es = "[]"]
  by (simp add: time_series_def check_crash_def check_missing_unit_def boom_def invoke_def
        try_call_def new_message_def)

text \<open>
  The claim as stated fails: it speaks of every exception, and \<^verbatim>\<open>except Exception\<close>
  does not catch one that is no instance of \<^verbatim>\<open>Exception\<close>. A rule that raises
  \<^verbatim>\<open>KeyboardInterrupt\<close> ends the run with that exception: no ERROR message is yielded,
  and the check that follows is never called.
\<close>

theorem run_checks_propagates_keyboard_interrupt:
  "call check_interrupt time_series = Raises interrupt \<and>
   run_checks \<lparr>objects = [time_series]\<rparr> [check_interrupt, check_missing_unit] =
     ([Called ''check_interrupt'' ''ts''], Raised (Uncaught interrupt))"
  by (simp add: time_series_def check_interrupt_def check_missing_unit_def interrupt_def
        invoke_def try_call_def)

text \<open>
  What the code does when the exception comes from the iteration of the output, not from
  the call: the items before it are yielded, and the exception leaves \<^verbatim>\<open>run_checks\<close>,
  whatever its class.
\<close>

lemma run_checks_lazy_output_raises:
  assumes "call c obj = ReturnsRaising xs e"
    and "neurodata_type c \<in> set (mro obj)"
    and "objects nwbfile = os1 @ obj # os2"
    and "seq_gen (run_checks nwbfile cs1) (run_objects c os1) = (es, Exhausted)"
  shows "run_checks nwbfile (cs1 @ c # cs2) =
           (es @ Called (func_name c) (obj_name obj) # map Yielded xs, Raised (Uncaught e))"
proof -
  have "invoke c obj =
          (Called (func_name c) (obj_name obj) # map Yielded xs, Raised (Uncaught e))"
    using assms(1) by (simp add: invoke_def try_call_def)
  then show ?thesis
    using run_checks_split [OF assms(3,2), of cs1 cs2] assms(4) by simp
qed

lemma run_checks_generator_example:
  "run_checks \<lparr>objects = [time_series]\<rparr> [check_generator, check_missing_unit] =
     ([Called ''check_generator'' ''ts'', Yielded (IMsg finding)], Raised (Uncaught boom))"
  by (simp add: time_series_def check_generator_def check_missing_unit_def
        invoke_def try_call_def)

section \<open>Properties of \<^verbatim>\<open>inspect_nwb\<close> and \<^verbatim>\<open>inspect_all\<close>\<close>

lemma invoke_no_ValueError: "snd (invoke c obj) \<noteq> Raised (ValueError s)"
  by (simp add: invoke_def split: sum.splits prod.splits option.splits)

lemma run_objects_no_ValueError: "snd (run_objects c os) \<noteq> Raised (ValueError s)"
  by (induction os) (auto simp: snd_seq_gen invoke_no_ValueError split: status.splits)

lemma run_checks_no_ValueError: "snd (run_checks nwbfile cs) \<noteq> Raised (ValueError s)"
  by (induction cs) (auto simp: snd_seq_gen run_objects_no_ValueError split: status.splits)

lemma stamp_no_ValueError:
  "st \<noteq> Raised (ValueError s) \<Longrightarrow> snd (stamp p es st) \<noteq> Raised (ValueError s)"
  by (induction p es st rule: stamp.induct) (auto simp: snd_seq_gen)

text \<open>
  Claim C8: when both \<^verbatim>\<open>ignore\<close> and \<^verbatim>\<open>select\<close> are given, the run of
  \<^verbatim>\<open>inspect_nwb\<close> is the ValueError of line 258 and nothing else: no file is opened, no
  rule function is called and nothing is yielded. When at most one of them is given, the run
  does not end with this error.
\<close>

theorem inspect_nwb_ignore_and_select_exclusive:
  "(ignore \<noteq> None \<and> select \<noteq> None \<longrightarrow>
      inspect_nwb val src checks importance_threshold ignore select =
        ([], Raised (ValueError ''Options 'ignore' and 'select' cannot both be used.''))) \<and>
   (ignore = None \<or> select = None \<longrightarrow>
      snd (inspect_nwb val src checks importance_threshold ignore select) \<noteq>
        Raised (ValueError ''Options 'ignore' and 'select' cannot both be used.''))"
proof (intro conjI impI)
  assume "ignore \<noteq> None \<and> select \<noteq> None"
  then show "inspect_nwb val src checks importance_threshold ignore select =
        ([], Raised (ValueError ''Options 'ignore' and 'select' cannot both be used.''))"
    by (simp add: inspect_nwb_def)
next
  let ?s = "''Options 'ignore' and 'select' cannot both be used.''"
  assume one: "ignore = None \<or> select = None"
  show "snd (inspect_nwb val src checks importance_threshold ignore select) \<noteq>
          Raised (ValueError ?s)"
  proof (cases importance_threshold)
    case (NonMember n)
    then show ?thesis using one by (auto simp: inspect_nwb_def)
  next
    case (Member t)
    let ?cs = "[x \<leftarrow> select_checks select ignore checks. val t \<le> val (func_importance x)]"
    have r: "snd (fst (read_file src)) \<noteq> Raised (ValueError ?s)"
      by (simp add: read_file_def split: sum.splits)
    have t: "snd (case snd (read_file src) of
                    None \<Rightarrow> ([], Raised (UnboundLocalError ''nwbfile''))
                  | Some nwbfile \<Rightarrow> stamp (path src) (fst (run_checks nwbfile ?cs))
                                      (snd (run_checks nwbfile ?cs))) \<noteq> Raised (ValueError ?s)"
      by (simp add: stamp_no_ValueError run_checks_no_ValueError split: option.splits)
    show ?thesis
    proof (cases "opens src")
      case None
      then show ?thesis using one r t Member
        by (auto simp: inspect_nwb_def snd_seq_gen validate_def Let_def split: status.splits)
    next
      case (Some ex)
      then show ?thesis using one Member by (auto simp: inspect_nwb_def)
    qed
  qed
qed

theorem inspect_nwb_ignore_and_select_exclusive_witness:
  "inspect_nwb sample_value readable [check_missing_unit] (Member BEST_PRACTICE_SUGGESTION)
      (Some [''check_crash'']) (Some [''check_missing_unit'']) =
     ([], Raised (ValueError ''Options 'ignore' and 'select' cannot both be used.'')) \<and>
   snd (inspect_nwb sample_value readable [check_missing_unit] (Member BEST_PRACTICE_SUGGESTION)
      None (Some [''check_missing_unit''])) = Exhausted \<and>
   snd (inspect_nwb sample_value readable [check_missing_unit] (Member BEST_PRACTICE_SUGGESTION)
      None (Some [''check_missing_unit''])) \<noteq>
     Raised (ValueError ''Options 'ignore' and 'select' cannot both be used.'')"
  using inspect_nwb_ignore_and_select_exclusive
      [of "Some [''check_crash'']" "Some [''check_missing_unit'']" sample_value readable
          "[check_missing_unit]" "Member BEST_PRACTICE_SUGGESTION"]
    inspect_nwb_ignore_and_select_exclusive
      [of None "Some [''check_missing_unit'']" sample_value readable
          "[check_missing_unit]" "Member BEST_PRACTICE_SUGGESTION"]
  by (simp add: examples inspect_nwb_def validate_def read_file_def select_checks_def
        invoke_def try_call_def)

text \<open>
  Claim C10: with \<^verbatim>\<open>select\<close> the empty list and no \<^verbatim>\<open>ignore\<close>, lines 278 to 281 filter
  nothing (the empty list is false in line 278): the checks are the ones given, and the run of
  \<^verbatim>\<open>inspect_nwb\<close> is the run with no \<^verbatim>\<open>select\<close> at all.
\<close>

theorem inspect_nwb_empty_select_runs_all:
  "select_checks (Some []) None checks = checks \<and>
   inspect_nwb val src checks importance_threshold None (Some []) =
   inspect_nwb val src checks importance_threshold None None"
proof -
  have a: "select_checks (Some []) None checks = checks"
    by (simp add: select_checks_def)
  have b: "select_checks None None checks = checks"
    by (simp add: select_checks_def)
  show ?thesis
    by (simp only: inspect_nwb_def a b) simp
qed

theorem inspect_nwb_empty_select_runs_all_witness:
  "inspect_nwb sample_value readable [check_missing_unit] (Member BEST_PRACTICE_SUGGESTION)
     None (Some []) =
     ([Opened ''good.nwb'', Called ''check_missing_unit'' ''ts'',
       Yielded (IMsg (finding\<lparr>file_path := Some ''good.nwb''\<rparr>))], Exhausted)"
  using inspect_nwb_empty_select_runs_all
      [of "[check_missing_unit]" sample_value readable "Member BEST_PRACTICE_SUGGESTION"]
  by (simp add: examples inspect_nwb_def validate_def read_file_def select_checks_def
        invoke_def try_call_def)

text \<open>
  Claim C5, as the code has it: the threshold is applied to the checks, before any rule
  runs, and to no message. On a file that opens and reads, the run of \<^verbatim>\<open>inspect_nwb\<close> is
  the PYNWB_VALIDATION messages, one for each validation error whatever the threshold,
  followed by the run of \<^verbatim>\<open>run_checks\<close> on exactly those selected checks whose own
  importance has a value not below the value of the threshold. So every message of a check
  below the threshold is absent, also the ERROR message its failure would give, and no
  message of another check is dropped, whatever the importance of the message.
\<close>

theorem inspect_nwb_threshold_applies_to_checks:
  assumes "opens src = None" and "reads src = Inr nwbfile" and "ignore = None \<or> select = None"
  shows "inspect_nwb val src checks (Member importance_threshold) ignore select =
           seq_gen (Opened (path src) # fst (validate src), Exhausted)
             (stamp (path src)
                (fst (run_checks nwbfile
                        [x \<leftarrow> select_checks select ignore checks.
                           val importance_threshold \<le> val (func_importance x)]))
                (snd (run_checks nwbfile
                        [x \<leftarrow> select_checks select ignore checks.
                           val importance_threshold \<le> val (func_importance x)]))) \<and>
         fst (validate src) =
           map (\<lambda>ve. Yielded (IMsg (new_message (reason ve) PYNWB_VALIDATION (Name (name ve))
                                      (Some (error_location ve))))) (validation_errors src)"
  using assms by (auto simp: inspect_nwb_def read_file_def validate_def Let_def)

theorem inspect_nwb_threshold_applies_to_checks_witness:
  "inspect_nwb sample_value readable [check_crash, check_missing_unit]
     (Member BEST_PRACTICE_VIOLATION) None None =
     ([Opened ''good.nwb'', Called ''check_missing_unit'' ''ts'',
       Yielded (IMsg (finding\<lparr>file_path := Some ''good.nwb''\<rparr>))], Exhausted)"
  using inspect_nwb_threshold_applies_to_checks
      [where src = readable and nwbfile = "\<lparr>objects = [time_series]\<rparr>" and ignore = None
         and select = None and val = sample_value and checks = "[check_crash, check_missing_unit]"
         and importance_threshold = BEST_PRACTICE_VIOLATION]
  by (simp add: examples validate_def select_checks_def invoke_def try_call_def)

text \<open>
  The claim as stated fails: the rule \<^verbatim>\<open>check_crash\<close>, of importance
  BEST_PRACTICE_SUGGESTION, raises on the object of the file. With the lowest threshold its
  ERROR message is in the output; with the threshold CRITICAL the rule is not run and the
  message, of an administrative level, is absent.
\<close>

theorem inspect_nwb_threshold_drops_error_message:
  "IMsg ((new_message ''Traceback: boom'' ERROR (Name ''check_crash'') None)
           \<lparr>file_path := Some ''good.nwb''\<rparr>)
     \<in> set (yielded (fst (inspect_nwb sample_value readable [check_crash]
                            (Member BEST_PRACTICE_SUGGESTION) None None))) \<and>
   IMsg ((new_message ''Traceback: boom'' ERROR (Name ''check_crash'') None)
           \<lparr>file_path := Some ''good.nwb''\<rparr>)
     \<notin> set (yielded (fst (inspect_nwb sample_value readable [check_crash]
                            (Member CRITICAL) None None))) \<and>
   importance ((new_message ''Traceback: boom'' ERROR (Name ''check_crash'') None)
           \<lparr>file_path := Some ''good.nwb''\<rparr>) = ERROR"
  by (simp add: examples inspect_nwb_def validate_def read_file_def select_checks_def
        invoke_def try_call_def new_message_def)

text \<open>What line 285 does: every message that comes out of the loop over \<^verbatim>\<open>run_checks\<close>
  has the path of the file in its field \<^verbatim>\<open>file\<close>.\<close>

lemma stamp_sets_file:
  "IMsg m \<in> set (yielded (fst (stamp p es st))) \<Longrightarrow> file_path m = Some p"
proof (induction p es st rule: stamp.induct)
  case (2 nwbfile_path m' es st)
  then show ?case by (cases "stamp nwbfile_path es st") auto
next
  case (4 nwbfile_path q es st)
  then show ?case by (cases "stamp nwbfile_path es st") auto
next
  case (5 nwbfile_path c n es st)
  then show ?case by (cases "stamp nwbfile_path es st") auto
qed simp_all

text \<open>
  Claim C7: every message \<^verbatim>\<open>inspect_nwb\<close> yields for a file has the path of the file in
  its field \<^verbatim>\<open>file\<close>. The code sets the field in line 285 only, on what
  \<^verbatim>\<open>run_checks\<close> yields: the PYNWB_VALIDATION message of a file with one validation
  error is yielded with the field unset.
\<close>

theorem inspect_nwb_validation_message_unstamped:
  "yielded (fst (inspect_nwb sample_value invalid [] (Member BEST_PRACTICE_SUGGESTION)
                   None None)) =
     [IMsg (new_message ''missing attribute'' PYNWB_VALIDATION (Name ''MissingDataType'')
              (Some ''/acquisition''))] \<and>
   file_path (new_message ''missing attribute'' PYNWB_VALIDATION (Name ''MissingDataType'')
              (Some ''/acquisition'')) = None \<and>
   path invalid = ''invalid.nwb''"
  by (simp add: examples inspect_nwb_def validate_def read_file_def select_checks_def
        new_message_def)

text \<open>An exception raised on opening the file leaves \<^verbatim>\<open>inspect_nwb\<close> with no message.\<close>

lemma inspect_nwb_open_failure:
  "opens src = Some ex \<Longrightarrow> ignore = None \<or> select = None \<Longrightarrow>
   inspect_nwb val src checks (Member t) ignore select = ([], Raised (Uncaught ex))"
  by (auto simp: inspect_nwb_def)

text \<open>
  Claim C2: a file whose read raises gives one ERROR message and no check is run for it, and
  \<^verbatim>\<open>inspect_all\<close> goes on with the other files. The code yields the ERROR message
  (line 277) and then falls through to line 284, where the local \<^verbatim>\<open>nwbfile\<close> was never
  bound: an UnboundLocalError leaves \<^verbatim>\<open>inspect_nwb\<close> and, uncaught, \<^verbatim>\<open>inspect_all\<close>.
  In a directory with an unreadable file followed by a readable one, the second file is
  never opened.
\<close>

theorem inspect_all_aborts_on_unreadable_file:
  "snd (inspect_all sample_value (Directory [unreadable, readable]) None None None
          (Member BEST_PRACTICE_SUGGESTION) [0, 1] registry) =
     ([Opened ''bad.nwb'',
       Yielded (IMsg (new_message ''Traceback: boom'' ERROR (ExceptionObject boom) None))],
      Raised (UnboundLocalError ''nwbfile''))"
  by (simp add: examples inspect_all_def inspect_nwb_def validate_def read_file_def)

section \<open>Properties of \<^verbatim>\<open>format_organized_results_output\<close>\<close>

text \<open>
  The test of line 48 is false for every key that is a member of \<^verbatim>\<open>Importance\<close>, the
  two administrative levels included: the entries of such a bucket are rendered with the
  template of lines 57 to 59. A key that is a string makes line 44 raise.
\<close>

lemma format_levels_enum_key:
  "format_levels nwbfile_index importance_index ((EnumKey i, check_results) # rest) =
     (case format_levels nwbfile_index (Suc importance_index) rest of
        Inl e \<Rightarrow> Inl e
      | Inr out \<Rightarrow>
          Inr ([[newline] @ map (\<lambda>ch. if ch = CHR ''_'' then CHR '' '' else ch) (Importance_name i)
                  @ [newline],
                replicate (length (Importance_name i)) (CHR ''-'') @ [newline]]
               @ map (\<lambda>(check_index, check_result).
                        normal_entry nwbfile_index importance_index check_index check_result)
                   (enumerate1 check_results)
               @ out))"
  by (simp add: Let_def split: sum.splits)

lemma format_levels_enum_keys:
  "format_levels nwbfile_index j (map (\<lambda>(i, rs). (EnumKey i, rs)) buckets) =
     Inr (concat (map (\<lambda>(importance_index, i, check_results).
            [[newline] @ map (\<lambda>ch. if ch = CHR ''_'' then CHR '' '' else ch) (Importance_name i)
               @ [newline],
             replicate (length (Importance_name i)) (CHR ''-'') @ [newline]]
            @ map (\<lambda>(check_index, check_result).
                     normal_entry nwbfile_index importance_index check_index check_result)
                (enumerate1 check_results))
          (zip [j ..< j + length buckets] buckets)))"
proof (induction buckets arbitrary: j)
  case Nil
  then show ?case by simp
next
  case (Cons b buckets)
  obtain i rs where b: "b = (i, rs)" by (cases b)
  have u: "[j ..< j + length (b # buckets)] = j # [Suc j ..< Suc j + length buckets]"
    using upt_conv_Cons [of j "j + length (b # buckets)"] by simp
  show ?case
    unfolding u using Cons.IH [of "Suc j"] b
    by (simp add: Let_def)
qed

lemma format_levels_str_key:
  "format_levels nwbfile_index importance_index ((StrKey s, check_results) # rest) =
     Inl (AttributeError ''name'')"
  by simp

text \<open>
  Claim C6: a bucket of importance ERROR or PYNWB_VALIDATION is rendered with the
  administrative template. The code does not do this: the key of the bucket is the member
  \<^verbatim>\<open>Importance.ERROR\<close>, which is not equal to the string \<^verbatim>\<open>"ERROR"\<close>, so the test of
  line 48 is false and the entry is rendered with the template of lines 57 to 59, which
  shows \<^verbatim>\<open>object_name\<close> and puts the message on a line of its own. Here the one
  message is the ERROR message of a rule that raised, as \<^verbatim>\<open>inspect_nwb\<close> yields it for
  the file \<^verbatim>\<open>good.nwb\<close>.
\<close>

theorem format_renders_error_bucket_with_normal_template:
  "organize_messages_by_file sample_value sample_severity
     [(new_message ''Traceback: boom'' ERROR (Name ''check_crash'') None)
        \<lparr>file_path := Some ''good.nwb''\<rparr>] =
   Inr [(Some ''good.nwb'',
         [(EnumKey ERROR,
           [(new_message ''Traceback: boom'' ERROR (Name ''check_crash'') None)
              \<lparr>file_path := Some ''good.nwb''\<rparr>])])] \<and>
   formatted_results sample_value sample_severity
     [(new_message ''Traceback: boom'' ERROR (Name ''check_crash'') None)
        \<lparr>file_path := Some ''good.nwb''\<rparr>] =
   Inr [''NWBFile: good.nwb'' @ [newline],
        ''================='' @ [newline],
        [newline] @ ''ERROR'' @ [newline],
        ''-----'' @ [newline],
        ''1.1.1   None '' @ [quote] @ ''None'' @ [quote] @ '' located in '' @
          [quote] @ ''None'' @ [quote] @ [newline] @
          ''        check_crash: Traceback: boom'' @ [newline]]"
  by (simp add: formatted_results_def organize_messages_by_file_def sorted_files_def
        format_organized_results_output_def new_message_def enumerate1_def
        normal_entry_def str_nat.simps)

end
